theory Spec2Isabelle
  imports Main
begin

section \<open>Data model of \<open>packages/core/svelte/use-chat.ts\<close>\<close>

text \<open>
  The hook \<open>useChat\<close> keeps its state in svelte stores (\<open>messages\<close>, \<open>error\<close>,
  \<open>loading\<close>, \<open>input\<close>, \<open>streamData\<close>), in the closure variable \<open>abortController\<close>
  and in the module-level object \<open>store\<close>. The model passes that state explicitly, as one
  record, and every operation returns the updated record.
\<close>

datatype json =
    JNull
  | JBool bool
  | JNum int
  | JStr string
  | JArr "json list"
  | JObj "(string \<times> json) list"

datatype role = System | User | Assistant | Function

text \<open>
  \<open>Message\<close> and \<open>CreateMessage\<close>: in the latter the id is optional, so the id is an
  option here. \<open>createdAt\<close> is a \<open>Date\<close>, kept as milliseconds since the epoch.
\<close>

record message =
  m_id :: "string option"
  m_role :: role
  m_content :: string
  m_name :: "string option"
  m_function_call :: "json option"
  m_createdAt :: "int option"

text \<open>\<open>ChatRequestOptions\<close>: \<open>{ options?, functions?, function_call? }\<close>.\<close>

record chat_request_options =
  o_options :: "json option"
  o_functions :: "json option"
  o_function_call :: "json option"

text \<open>\<open>ChatRequest\<close>: \<open>{ messages, options?, functions?, function_call? }\<close>.\<close>

record chat_request =
  r_messages :: "message list"
  r_options :: "json option"
  r_functions :: "json option"
  r_function_call :: "json option"

text \<open>
  What a JavaScript \<open>catch\<close> clause can receive. The source inspects the caught value in
  two ways only: it reads the property \<open>name\<close> (\<open>(err as any).name\<close>) and it tests
  \<open>err instanceof Error\<close>. The cases are an instance of \<open>Error\<close> (with its name and its
  message), any other object (with its properties), a thrown string, \<open>null\<close> and
  \<open>undefined\<close>.
\<close>

datatype thrown =
    JsError string string
  | JsObject "(string \<times> json) list"
  | JsString string
  | JsNull
  | JsUndefined

text \<open>
  The value an \<open>async\<close> function of the source resolves with: \<open>null\<close>, or \<open>undefined\<close>
  when the body ends without a \<open>return\<close>.
\<close>

datatype js_return = RNull | RUndefined

text \<open>
  The calls the hook makes to code outside of it, in the order they happen: the call of
  \<open>processChatStream\<close> with the request the closure \<open>getStreamedResponse\<close> starts from,
  every call of \<open>callApi\<close> (endpoint, message payload and the controller the accessor
  \<open>abortController\<close> returns), every call of the user's \<open>onError\<close>, every
  \<open>abort()\<close> of a controller, and \<open>e.preventDefault()\<close>.
\<close>

datatype effect =
    is_ProcessChatStream: ProcessChatStream chat_request
  | is_CallApi: CallApi string "message list" "nat option"
  | is_OnError: OnError thrown
  | is_Abort: Abort nat
  | is_PreventDefault: PreventDefault

text \<open>
  An \<open>AbortController\<close> is an object with an identity: controllers are numbered in the
  order \<open>new AbortController()\<close> creates them, \<open>controllers\<close> counting those created so
  far.

  \<open>messages\<close> is the store \<open>data\<close> that \<open>useSWR\<close> of sswr returns: what
  \<open>get(messages)\<close> reads. After line 162 no statement of the file writes it; it changes
  when sswr delivers a list to it. \<open>swr_pending\<close> is the list sswr was handed last by
  \<open>originalMutate\<close> and has not delivered yet.
\<close>

record hook_state =
  messages :: "message list"
  swr_pending :: "message list option"
  store :: "string \<rightharpoonup> message list"
  streamData :: "json list option"
  loading :: bool
  abortController :: "nat option"
  error :: "thrown option"
  input :: string
  controllers :: nat
  trace :: "effect list"

text \<open>
  The options of \<open>useChat\<close> that the modelled functions read. \<open>chatId\<close> is the id after
  defaulting (\<open>id || `chat-${uniqueId++}`\<close>). A user callback \<open>onError\<close> may itself
  throw: it maps the error it is called with to \<open>None\<close> when it returns and to the thrown
  value otherwise.
\<close>

record hook =
  api :: string
  chatId :: string
  sendExtraMessageFields :: bool
  onError :: "(thrown \<Rightarrow> thrown option) option"

subsection \<open>The streaming collaborators\<close>

text \<open>
  Modelled from the spec: \<open>processChatStream\<close> and \<open>callApi\<close> live in
  \<open>../shared\<close> and are black boxes to this file. All they can do to the hook is call the
  functions the hook hands them, and then resolve or reject. Their behaviour in one
  request is therefore a parameter: the list of the calls \<open>processChatStream\<close> makes
  (\<open>getStreamedResponse()\<close>, with the callbacks the resulting \<open>callApi\<close> invokes, and
  \<open>updateChatRequest\<close>; \<open>getCurrentMessages\<close> only reads), and how its promise settles.
  The callbacks \<open>onResponse\<close>, \<open>onFinish\<close> and \<open>experimental_onFunctionCall\<close> are the
  user's and are passed through untouched.

  sswr is a dependency of the repository and a black box as well. Its \<open>mutate\<close> does not
  write the store \<open>data\<close> before it returns: it notifies the subscribers of the key
  later, in a task of its own, and a store that nothing subscribes to is never written.
  Whether and when a delivery happens is therefore part of the same parameter: \<open>Deliver\<close>
  marks a point, while \<open>callApi\<close> runs, at which sswr delivers what it holds.
\<close>

datatype api_event =
    AppendMessage message
  | RestoreMessagesOnFailure
  | OnUpdate "message list" "json list option"
  | Deliver

datatype stream_event =
    is_GetStreamedResponse: GetStreamedResponse "api_event list"
  | is_UpdateChatRequest: UpdateChatRequest chat_request

datatype settlement = Resolve | Reject thrown

type_synonym collaborator = "stream_event list \<times> settlement"

section \<open>The functions of the hook\<close>

text \<open>\<open>const key = `${api}|${chatId}`\<close>\<close>

definition key :: "hook \<Rightarrow> string" where
  "key h = api h @ ''|'' @ chatId h"

text \<open>
  \<open>mutate\<close> (lines 164-167): writes the module-level cache and hands the list to
  \<open>originalMutate\<close> of sswr. The store \<open>messages\<close> is not written here.
\<close>

definition mutate :: "hook \<Rightarrow> message list \<Rightarrow> hook_state \<Rightarrow> hook_state" where
  "mutate h data s = s\<lparr>store := (store s)(key h \<mapsto> data), swr_pending := Some data\<rparr>"

text \<open>
  A delivery by sswr: the subscribed store \<open>data\<close> receives the list sswr holds. It is a
  step of the library, taken after the code that called \<open>mutate\<close> has returned or is
  suspended, if it is taken at all.
\<close>

definition deliver :: "hook_state \<Rightarrow> hook_state" where
  "deliver s =
     (case swr_pending s of
        None \<Rightarrow> s
      | Some data \<Rightarrow> s\<lparr>messages := data, swr_pending := None\<rparr>)"

text \<open>
  The payload of lines 81-90: with \<open>sendExtraMessageFields\<close> the messages as they are,
  otherwise only \<open>role\<close>, \<open>content\<close>, \<open>name\<close> and \<open>function_call\<close> of each.
\<close>

definition stripMessage :: "message \<Rightarrow> message" where
  "stripMessage m =
     \<lparr>m_id = None, m_role = m_role m, m_content = m_content m, m_name = m_name m,
      m_function_call = m_function_call m, m_createdAt = None\<rparr>"

definition constructedMessagesPayload :: "hook \<Rightarrow> chat_request \<Rightarrow> message list" where
  "constructedMessagesPayload h chatRequest =
     (if sendExtraMessageFields h then r_messages chatRequest
      else map stripMessage (r_messages chatRequest))"

text \<open>\<open>x || []\<close> on an array or \<open>undefined\<close>.\<close>

definition orEmpty :: "'a list option \<Rightarrow> 'a list" where
  "orEmpty x = (case x of None \<Rightarrow> [] | Some d \<Rightarrow> d)"

text \<open>
  The callbacks \<open>getStreamedResponse\<close> hands to \<open>callApi\<close> (lines 111-121), each closed
  over the arguments \<open>chatRequest\<close>, \<open>existingData\<close> and \<open>previousMessages\<close> of that call,
  and the deliveries of sswr that fall between them.
\<close>

fun callApi_callback ::
  "hook \<Rightarrow> chat_request \<Rightarrow> json list option \<Rightarrow> message list \<Rightarrow> hook_state \<Rightarrow> api_event
    \<Rightarrow> hook_state" where
  "callApi_callback h chatRequest existingData previousMessages s (AppendMessage m) =
     mutate h (r_messages chatRequest @ [m]) s"
| "callApi_callback h chatRequest existingData previousMessages s RestoreMessagesOnFailure =
     mutate h previousMessages s"
| "callApi_callback h chatRequest existingData previousMessages s (OnUpdate merged data) =
     (mutate h (r_messages chatRequest @ merged) s)
       \<lparr>streamData := Some (orEmpty existingData @ orEmpty data)\<rparr>"
| "callApi_callback h chatRequest existingData previousMessages s Deliver = deliver s"

text \<open>
  \<open>getStreamedResponse\<close> (lines 60-124): the call of \<open>mutate\<close> for the optimistic
  update, then \<open>callApi\<close>, during which \<open>evs\<close> happen.
\<close>

definition getStreamedResponse ::
  "hook \<Rightarrow> chat_request \<Rightarrow> json list option \<Rightarrow> message list \<Rightarrow> nat option
    \<Rightarrow> api_event list \<Rightarrow> hook_state \<Rightarrow> hook_state" where
  "getStreamedResponse h chatRequest existingData previousMessages abortControllerRef evs s =
     (let s1 = mutate h (r_messages chatRequest) s;
          s2 = s1\<lparr>trace := trace s1 @
                 [CallApi (api h) (constructedMessagesPayload h chatRequest) abortControllerRef]\<rparr>
      in foldl (callApi_callback h chatRequest existingData previousMessages) s2 evs)"

text \<open>
  One call of \<open>processChatStream\<close> on the handles of lines 191-213. The closure
  \<open>getStreamedResponse\<close> reads the variable \<open>chatRequest\<close>, \<open>get(streamData)\<close>,
  \<open>get(messages)\<close> and \<open>abortController\<close> when it is called; \<open>updateChatRequest\<close>
  assigns the variable \<open>chatRequest\<close>.
\<close>

fun stream_step :: "hook \<Rightarrow> chat_request \<times> hook_state \<Rightarrow> stream_event \<Rightarrow> chat_request \<times> hook_state" where
  "stream_step h (chatRequest, s) (GetStreamedResponse evs) =
     (chatRequest,
      getStreamedResponse h chatRequest (streamData s) (messages s) (abortController s) evs s)"
| "stream_step h (chatRequest, s) (UpdateChatRequest chatRequestParam) = (chatRequestParam, s)"

definition processChatStream ::
  "hook \<Rightarrow> stream_event list \<Rightarrow> chat_request \<Rightarrow> hook_state \<Rightarrow> hook_state" where
  "processChatStream h evs chatRequest s = snd (foldl (stream_step h) (chatRequest, s) evs)"

text \<open>
  Reading \<open>(err as any).name\<close>: the property of the object, \<open>undefined\<close> (\<open>None\<close>) on a
  string, and a \<open>TypeError\<close> on \<open>null\<close> and on \<open>undefined\<close>. The language fixes the
  class of that error and not its message; the messages here are the ones of V8 (Node,
  Chrome).
\<close>

fun name_of :: "thrown \<Rightarrow> thrown + json option" where
  "name_of (JsError n msg) = Inr (Some (JStr n))"
| "name_of (JsObject props) = Inr (map_of props ''name'')"
| "name_of (JsString v) = Inr None"
| "name_of JsNull =
     Inl (JsError ''TypeError''
       (''Cannot read properties of null (reading '' @ [CHR 0x27] @ ''name'' @ [CHR 0x27] @ '')''))"
| "name_of JsUndefined =
     Inl (JsError ''TypeError''
       (''Cannot read properties of undefined (reading '' @ [CHR 0x27] @ ''name'' @ [CHR 0x27] @ '')''))"

fun instanceofError :: "thrown \<Rightarrow> bool" where
  "instanceofError (JsError n msg) = True"
| "instanceofError _ = False"

text \<open>The \<open>finally\<close> block of \<open>triggerRequest\<close> (line 231).\<close>

definition finally_block :: "hook_state \<Rightarrow> hook_state" where
  "finally_block s = s\<lparr>loading := False\<rparr>"

text \<open>The \<open>catch\<close> block of \<open>triggerRequest\<close> (lines 218-229), followed by \<open>finally\<close>.\<close>

definition catch_block :: "hook \<Rightarrow> thrown \<Rightarrow> hook_state \<Rightarrow> (thrown + js_return) \<times> hook_state" where
  "catch_block h err s =
     (case name_of err of
        Inl typeError \<Rightarrow> (Inl typeError, finally_block s)
      | Inr nm \<Rightarrow>
          if nm = Some (JStr ''AbortError'')
          then (Inr RNull, finally_block (s\<lparr>abortController := None\<rparr>))
          else
            (case (if instanceofError err then onError h else None) of
               Some callback \<Rightarrow>
                 (let s1 = s\<lparr>trace := trace s @ [OnError err]\<rparr>
                  in case callback err of
                       Some thrown_by_callback \<Rightarrow> (Inl thrown_by_callback, finally_block s1)
                     | None \<Rightarrow> (Inr RUndefined, finally_block (s1\<lparr>error := Some err\<rparr>)))
             | None \<Rightarrow> (Inr RUndefined, finally_block (s\<lparr>error := Some err\<rparr>))))"

text \<open>
  \<open>triggerRequest\<close> (lines 185-233), in the three parts its one suspension point
  divides it into. \<open>try_entry\<close> is lines 187-191, up to the call of \<open>processChatStream\<close>
  with the request; \<open>processChatStream\<close> above is what happens while that call is
  awaited; \<open>settle\<close> is the rest: lines 215-217 when the promise resolves, the
  \<open>catch\<close> block when it rejects, the \<open>finally\<close> block in both cases. The result is
  \<open>Inr\<close> of the value the promise of \<open>triggerRequest\<close> resolves with, or \<open>Inl\<close> of the
  value it rejects with.
\<close>

definition try_entry :: "chat_request \<Rightarrow> hook_state \<Rightarrow> hook_state" where
  "try_entry chatRequest s =
     (let s1 = s\<lparr>error := None\<rparr>;
          s2 = s1\<lparr>loading := True\<rparr>;
          s3 = s2\<lparr>abortController := Some (controllers s2), controllers := Suc (controllers s2)\<rparr>
      in s3\<lparr>trace := trace s3 @ [ProcessChatStream chatRequest]\<rparr>)"

definition settle :: "hook \<Rightarrow> settlement \<Rightarrow> hook_state \<Rightarrow> (thrown + js_return) \<times> hook_state" where
  "settle h outcome s =
     (case outcome of
        Resolve \<Rightarrow> (Inr RNull, finally_block (s\<lparr>abortController := None\<rparr>))
      | Reject err \<Rightarrow> catch_block h err s)"

definition triggerRequest ::
  "hook \<Rightarrow> collaborator \<Rightarrow> chat_request \<Rightarrow> hook_state \<Rightarrow> (thrown + js_return) \<times> hook_state" where
  "triggerRequest h collab chatRequest s =
     settle h (snd collab) (processChatStream h (fst collab) chatRequest (try_entry chatRequest s))"

text \<open>\<open>!message.id\<close>: the id is missing or the empty string.\<close>

definition noId :: "message \<Rightarrow> bool" where
  "noId message = (case m_id message of None \<Rightarrow> True | Some i \<Rightarrow> i = [])"

text \<open>
  Lines 239-248 of \<open>append\<close>: the id and the request. \<open>generated\<close> is what \<open>nanoid()\<close>
  returns when it is called.
\<close>

definition assignId :: "string \<Rightarrow> message \<Rightarrow> message" where
  "assignId generated message =
     (if noId message then message\<lparr>m_id := Some generated\<rparr> else message)"

definition append_request ::
  "string \<Rightarrow> message \<Rightarrow> chat_request_options \<Rightarrow> hook_state \<Rightarrow> chat_request" where
  "append_request generated message opts s =
     \<lparr>r_messages = messages s @ [assignId generated message],
      r_options = o_options opts,
      r_functions = o_functions opts,
      r_function_call = o_function_call opts\<rparr>"

definition append_message ::
  "hook \<Rightarrow> collaborator \<Rightarrow> string \<Rightarrow> message \<Rightarrow> chat_request_options \<Rightarrow> hook_state
    \<Rightarrow> (thrown + js_return) \<times> hook_state" where
  "append_message h collab generated message opts s =
     triggerRequest h collab (append_request generated message opts s) s"

text \<open>\<open>reload\<close> (lines 252-280).\<close>

definition reload ::
  "hook \<Rightarrow> collaborator \<Rightarrow> chat_request_options \<Rightarrow> hook_state
    \<Rightarrow> (thrown + js_return) \<times> hook_state" where
  "reload h collab opts s =
     (let messagesSnapshot = messages s
      in if length messagesSnapshot = 0 then (Inr RNull, s)
         else if m_role (last messagesSnapshot) = Assistant
         then triggerRequest h collab
                \<lparr>r_messages = butlast messagesSnapshot,
                 r_options = o_options opts,
                 r_functions = o_functions opts,
                 r_function_call = o_function_call opts\<rparr> s
         else triggerRequest h collab
                \<lparr>r_messages = messagesSnapshot,
                 r_options = o_options opts,
                 r_functions = o_functions opts,
                 r_function_call = o_function_call opts\<rparr> s)"

text \<open>\<open>stop\<close> (lines 282-287). No statement of it can throw.\<close>

definition stop :: "hook_state \<Rightarrow> (thrown + js_return) \<times> hook_state" where
  "stop s =
     (case abortController s of
        Some c \<Rightarrow> (Inr RUndefined, s\<lparr>trace := trace s @ [Abort c], abortController := None\<rparr>)
      | None \<Rightarrow> (Inr RUndefined, s))"

text \<open>\<open>setMessages\<close> (lines 289-291).\<close>

definition setMessages :: "hook \<Rightarrow> message list \<Rightarrow> hook_state \<Rightarrow> (thrown + js_return) \<times> hook_state" where
  "setMessages h msgs s = (Inr RUndefined, mutate h msgs s)"

text \<open>
  \<open>handleSubmit\<close> (lines 295-309). \<open>now\<close> is \<open>new Date()\<close>. The promise of \<open>append\<close> is
  neither awaited nor returned, so its result is dropped; \<open>input.set('')\<close> runs when
  \<open>append\<close> has reached its first suspension, and the request settles later. Lemma
  \<open>handleSubmit_unawaited\<close> below shows that the place of \<open>input.set('')\<close> in that
  run makes no difference to the state.
\<close>

definition handleSubmit ::
  "hook \<Rightarrow> collaborator \<Rightarrow> string \<Rightarrow> int \<Rightarrow> chat_request_options \<Rightarrow> hook_state
    \<Rightarrow> (thrown + js_return) \<times> hook_state" where
  "handleSubmit h collab generated now opts s =
     (let s1 = s\<lparr>trace := trace s @ [PreventDefault]\<rparr>;
          inputValue = input s1
      in if inputValue = [] then (Inr RUndefined, s1)
         else
           (let s2 = snd (append_message h collab generated
                      \<lparr>m_id = None, m_role = User, m_content = inputValue, m_name = None,
                       m_function_call = None, m_createdAt = Some now\<rparr> opts s1)
            in (Inr RUndefined, s2\<lparr>input := []\<rparr>)))"

text \<open>
  The state when \<open>useChat\<close> returns (lines 157-181 and 293), given the module-level cache
  as it is at that moment: line 162 has set the store \<open>data\<close> to \<open>initialMessages\<close>,
  whatever the cache holds.
\<close>

definition useChat :: "(string \<rightharpoonup> message list) \<Rightarrow> message list \<Rightarrow> string \<Rightarrow> hook_state" where
  "useChat cache initialMessages initialInput =
     \<lparr>messages = initialMessages, swr_pending = None, store = cache, streamData = None,
      loading = False, abortController = None, error = None, input = initialInput,
      controllers = 0, trace = []\<rparr>"

text \<open>
  The fetcher of line 153, \<open>store[key] || initialMessages\<close>: an array is truthy also when
  it is empty, so the cache entry is served whenever there is one. sswr calls the fetcher
  once the component is mounted and serves its result to the store \<open>data\<close>.
\<close>

definition fetcher :: "hook \<Rightarrow> message list \<Rightarrow> hook_state \<Rightarrow> message list" where
  "fetcher h initialMessages s =
     (case store s (key h) of None \<Rightarrow> initialMessages | Some cached \<Rightarrow> cached)"

definition mounted :: "hook \<Rightarrow> message list \<Rightarrow> hook_state \<Rightarrow> hook_state" where
  "mounted h initialMessages s = s\<lparr>messages := fetcher h initialMessages s\<rparr>"

subsection \<open>Example values\<close>

definition example_hook :: hook where
  "example_hook =
     \<lparr>api = ''/api/chat'', chatId = ''chat-0'', sendExtraMessageFields = False,
      onError = Some (\<lambda>err. None)\<rparr>"

definition user_message :: message where
  "user_message =
     \<lparr>m_id = Some ''u1'', m_role = User, m_content = ''hello'', m_name = None,
      m_function_call = None, m_createdAt = None\<rparr>"

definition assistant_message :: message where
  "assistant_message =
     \<lparr>m_id = Some ''a1'', m_role = Assistant, m_content = ''hi there'', m_name = None,
      m_function_call = None, m_createdAt = None\<rparr>"

definition new_message :: message where
  "new_message =
     \<lparr>m_id = None, m_role = User, m_content = ''and then?'', m_name = None,
      m_function_call = None, m_createdAt = None\<rparr>"

definition no_options :: chat_request_options where
  "no_options = \<lparr>o_options = None, o_functions = None, o_function_call = None\<rparr>"

definition example_request :: chat_request where
  "example_request =
     \<lparr>r_messages = [user_message], r_options = None, r_functions = None,
      r_function_call = None\<rparr>"

definition example_state :: hook_state where
  "example_state = useChat Map.empty [user_message, assistant_message] ''and then?''"

definition empty_state :: hook_state where
  "empty_state = useChat Map.empty [] []"

definition user_only_state :: hook_state where
  "user_only_state = useChat Map.empty [user_message] []"

definition edited_message :: message where
  "edited_message =
     \<lparr>m_id = Some ''u1'', m_role = User, m_content = ''hello again'', m_name = None,
      m_function_call = None, m_createdAt = None\<rparr>"

section \<open>What a request leaves alone\<close>

lemma mutate_fields [simp]:
  "streamData (mutate h d s) = streamData s"
  "loading (mutate h d s) = loading s"
  "abortController (mutate h d s) = abortController s"
  "error (mutate h d s) = error s"
  "input (mutate h d s) = input s"
  "controllers (mutate h d s) = controllers s"
  "trace (mutate h d s) = trace s"
  "messages (mutate h d s) = messages s"
  "swr_pending (mutate h d s) = Some d"
  "store (mutate h d s) = (store s)(key h \<mapsto> d)"
  by (simp_all add: mutate_def)

lemma deliver_fields [simp]:
  "store (deliver s) = store s"
  "streamData (deliver s) = streamData s"
  "loading (deliver s) = loading s"
  "abortController (deliver s) = abortController s"
  "error (deliver s) = error s"
  "input (deliver s) = input s"
  "controllers (deliver s) = controllers s"
  "trace (deliver s) = trace s"
  by (simp_all add: deliver_def split: option.splits)

lemma callApi_callback_fields [simp]:
  "loading (callApi_callback h r e p s ev) = loading s"
  "abortController (callApi_callback h r e p s ev) = abortController s"
  "error (callApi_callback h r e p s ev) = error s"
  "input (callApi_callback h r e p s ev) = input s"
  "controllers (callApi_callback h r e p s ev) = controllers s"
  "trace (callApi_callback h r e p s ev) = trace s"
  by (cases ev; simp)+

lemma callbacks_fields [simp]:
  "loading (foldl (callApi_callback h r e p) s evs) = loading s"
  "abortController (foldl (callApi_callback h r e p) s evs) = abortController s"
  "error (foldl (callApi_callback h r e p) s evs) = error s"
  "input (foldl (callApi_callback h r e p) s evs) = input s"
  "controllers (foldl (callApi_callback h r e p) s evs) = controllers s"
  "trace (foldl (callApi_callback h r e p) s evs) = trace s"
  by (induction evs arbitrary: s; simp)+

lemma getStreamedResponse_fields [simp]:
  "loading (getStreamedResponse h r e p a evs s) = loading s"
  "abortController (getStreamedResponse h r e p a evs s) = abortController s"
  "error (getStreamedResponse h r e p a evs s) = error s"
  "input (getStreamedResponse h r e p a evs s) = input s"
  "controllers (getStreamedResponse h r e p a evs s) = controllers s"
  "trace (getStreamedResponse h r e p a evs s) =
     trace s @ [CallApi (api h) (constructedMessagesPayload h r) a]"
  by (simp_all add: getStreamedResponse_def Let_def)

lemma stream_step_fields [simp]:
  "loading (snd (stream_step h rs ev)) = loading (snd rs)"
  "abortController (snd (stream_step h rs ev)) = abortController (snd rs)"
  "error (snd (stream_step h rs ev)) = error (snd rs)"
  "input (snd (stream_step h rs ev)) = input (snd rs)"
  "controllers (snd (stream_step h rs ev)) = controllers (snd rs)"
  by (cases rs; cases ev; simp)+

lemma stream_step_trace:
  assumes "\<And>a b c. \<not> P (CallApi a b c)"
  shows "filter P (trace (snd (stream_step h rs ev))) = filter P (trace (snd rs))"
  using assms by (cases rs; cases ev; simp)

lemma stream_steps_fields [simp]:
  "loading (snd (foldl (stream_step h) rs evs)) = loading (snd rs)"
  "abortController (snd (foldl (stream_step h) rs evs)) = abortController (snd rs)"
  "error (snd (foldl (stream_step h) rs evs)) = error (snd rs)"
  "input (snd (foldl (stream_step h) rs evs)) = input (snd rs)"
  "controllers (snd (foldl (stream_step h) rs evs)) = controllers (snd rs)"
  by (induction evs arbitrary: rs; simp)+

lemma stream_steps_trace:
  assumes "\<And>a b c. \<not> P (CallApi a b c)"
  shows "filter P (trace (snd (foldl (stream_step h) rs evs))) = filter P (trace (snd rs))"
  using assms by (induction evs arbitrary: rs) (simp_all add: stream_step_trace)

lemma processChatStream_fields [simp]:
  "loading (processChatStream h evs r s) = loading s"
  "abortController (processChatStream h evs r s) = abortController s"
  "error (processChatStream h evs r s) = error s"
  "input (processChatStream h evs r s) = input s"
  "controllers (processChatStream h evs r s) = controllers s"
  by (simp_all add: processChatStream_def)

lemma processChatStream_trace:
  assumes "\<And>a b c. \<not> P (CallApi a b c)"
  shows "filter P (trace (processChatStream h evs r s)) = filter P (trace s)"
  using assms by (simp add: processChatStream_def stream_steps_trace)

lemma try_entry_fields [simp]:
  "messages (try_entry r s) = messages s"
  "swr_pending (try_entry r s) = swr_pending s"
  "store (try_entry r s) = store s"
  "streamData (try_entry r s) = streamData s"
  "loading (try_entry r s) = True"
  "abortController (try_entry r s) = Some (controllers s)"
  "error (try_entry r s) = None"
  "input (try_entry r s) = input s"
  "controllers (try_entry r s) = Suc (controllers s)"
  "trace (try_entry r s) = trace s @ [ProcessChatStream r]"
  by (simp_all add: try_entry_def Let_def)

lemma catch_block_requests:
  "filter is_ProcessChatStream (trace (snd (catch_block h err s))) =
   filter is_ProcessChatStream (trace s)"
  by (simp add: catch_block_def finally_block_def Let_def split: sum.splits option.splits)

lemma settle_requests:
  "filter is_ProcessChatStream (trace (snd (settle h outcome s))) =
   filter is_ProcessChatStream (trace s)"
  by (cases outcome) (simp_all add: settle_def finally_block_def catch_block_requests)

lemma triggerRequest_requests:
  "filter is_ProcessChatStream (trace (snd (triggerRequest h collab r s))) =
   filter is_ProcessChatStream (trace s) @ [ProcessChatStream r]"
  by (simp add: triggerRequest_def settle_requests processChatStream_trace)

lemma settle_input:
  "input (snd (settle h outcome s)) = input s"
  by (cases outcome)
     (simp_all add: settle_def catch_block_def finally_block_def Let_def
        split: sum.splits option.splits)

lemma triggerRequest_keeps_input:
  "input (snd (triggerRequest h collab r s)) = input s"
  by (simp add: triggerRequest_def settle_input)

section \<open>The input store and the request\<close>

lemma mutate_input: "mutate h d (s\<lparr>input := v\<rparr>) = (mutate h d s)\<lparr>input := v\<rparr>"
  by (simp add: mutate_def)

lemma deliver_input: "deliver (s\<lparr>input := v\<rparr>) = (deliver s)\<lparr>input := v\<rparr>"
  by (simp add: deliver_def split: option.splits)

lemma callApi_callback_input:
  "callApi_callback h r e p (s\<lparr>input := v\<rparr>) ev = (callApi_callback h r e p s ev)\<lparr>input := v\<rparr>"
  by (cases ev) (simp_all add: mutate_def deliver_input)

lemma callbacks_input:
  "foldl (callApi_callback h r e p) (s\<lparr>input := v\<rparr>) evs =
   (foldl (callApi_callback h r e p) s evs)\<lparr>input := v\<rparr>"
  by (induction evs arbitrary: s) (simp_all add: callApi_callback_input)

lemma input_trace_update:
  "s\<lparr>input := v, trace := t\<rparr> = s\<lparr>trace := t, input := v\<rparr>" for s :: hook_state
  by (cases s) simp

lemma getStreamedResponse_input:
  "getStreamedResponse h r e p a evs (s\<lparr>input := v\<rparr>) =
   (getStreamedResponse h r e p a evs s)\<lparr>input := v\<rparr>"
proof -
  let ?m = "mutate h (r_messages r) s"
  let ?t = "trace ?m @ [CallApi (api h) (constructedMessagesPayload h r) a]"
  have "getStreamedResponse h r e p a evs (s\<lparr>input := v\<rparr>) =
        foldl (callApi_callback h r e p) (?m\<lparr>input := v, trace := ?t\<rparr>) evs"
    by (simp add: getStreamedResponse_def Let_def mutate_input)
  also have "\<dots> = foldl (callApi_callback h r e p) ((?m\<lparr>trace := ?t\<rparr>)\<lparr>input := v\<rparr>) evs"
    by (simp only: input_trace_update)
  also have "\<dots> = (foldl (callApi_callback h r e p) (?m\<lparr>trace := ?t\<rparr>) evs)\<lparr>input := v\<rparr>"
    by (rule callbacks_input)
  finally show ?thesis
    by (simp add: getStreamedResponse_def Let_def)
qed

lemma stream_step_input:
  "stream_step h (r, s\<lparr>input := v\<rparr>) ev =
   (fst (stream_step h (r, s) ev), (snd (stream_step h (r, s) ev))\<lparr>input := v\<rparr>)"
  by (cases ev) (simp_all add: getStreamedResponse_input)

lemma stream_steps_input:
  "foldl (stream_step h) (r, s\<lparr>input := v\<rparr>) evs =
   (fst (foldl (stream_step h) (r, s) evs), (snd (foldl (stream_step h) (r, s) evs))\<lparr>input := v\<rparr>)"
proof (induction evs arbitrary: r s)
  case Nil
  then show ?case by simp
next
  case (Cons ev evs)
  obtain r' s' where step: "stream_step h (r, s) ev = (r', s')"
    by (cases "stream_step h (r, s) ev")
  then show ?case
    by (simp add: stream_step_input Cons.IH)
qed

lemma settle_input_update:
  "settle h outcome (s\<lparr>input := v\<rparr>) =
   (fst (settle h outcome s), (snd (settle h outcome s))\<lparr>input := v\<rparr>)"
  by (cases outcome)
     (simp_all add: settle_def catch_block_def finally_block_def Let_def
        split: sum.splits option.splits)

lemma handleSubmit_unawaited:
  assumes "input s \<noteq> []"
  shows "snd (handleSubmit h (evs1 @ evs2, outcome) generated now opts s) =
         (let s1 = s\<lparr>trace := trace s @ [PreventDefault]\<rparr>;
              chatRequest = append_request generated
                \<lparr>m_id = None, m_role = User, m_content = input s, m_name = None,
                 m_function_call = None, m_createdAt = Some now\<rparr> opts s1;
              suspended = foldl (stream_step h) (chatRequest, try_entry chatRequest s1) evs1;
              returned = (fst suspended, (snd suspended)\<lparr>input := []\<rparr>)
          in snd (settle h outcome (snd (foldl (stream_step h) returned evs2))))"
proof -
  define s1 where "s1 = s\<lparr>trace := trace s @ [PreventDefault]\<rparr>"
  define chatRequest where "chatRequest = append_request generated
     \<lparr>m_id = None, m_role = User, m_content = input s, m_name = None,
      m_function_call = None, m_createdAt = Some now\<rparr> opts s1"
  obtain r' s' where mid: "foldl (stream_step h) (chatRequest, try_entry chatRequest s1) evs1 = (r', s')"
    by (cases "foldl (stream_step h) (chatRequest, try_entry chatRequest s1) evs1")
  have "input s1 = input s"
    by (simp add: s1_def)
  with assms have "snd (handleSubmit h (evs1 @ evs2, outcome) generated now opts s) =
      (snd (settle h outcome (snd (foldl (stream_step h) (r', s') evs2))))\<lparr>input := []\<rparr>"
    by (simp add: handleSubmit_def Let_def append_message_def triggerRequest_def processChatStream_def
        s1_def [symmetric] chatRequest_def [symmetric] mid)
  also have "\<dots> = snd (settle h outcome (snd (foldl (stream_step h) (r', s'\<lparr>input := []\<rparr>) evs2)))"
    by (simp add: stream_steps_input settle_input_update)
  finally show ?thesis
    by (simp add: Let_def s1_def [symmetric] chatRequest_def [symmetric] mid)
qed

section \<open>The message list during a request\<close>

text \<open>
  A property \<open>Q\<close> of message lists that holds of the list the request started from and
  of every continuation of the request's list holds of the store, and of what sswr
  holds, throughout a call of \<open>getStreamedResponse\<close>.
\<close>

lemma callApi_callback_messages:
  assumes "Q p" and "\<And>rest. Q (r_messages r @ rest)"
    and "Q (messages s)" and "\<And>d. swr_pending s = Some d \<Longrightarrow> Q d"
  shows "Q (messages (callApi_callback h r e p s ev)) \<and>
         (\<forall>d. swr_pending (callApi_callback h r e p s ev) = Some d \<longrightarrow> Q d)"
proof (cases ev)
  case (AppendMessage m)
  then show ?thesis using assms by simp
next
  case RestoreMessagesOnFailure
  then show ?thesis using assms by simp
next
  case (OnUpdate merged data)
  then show ?thesis using assms by simp
next
  case Deliver
  then show ?thesis using assms by (simp add: deliver_def split: option.splits)
qed

lemma callbacks_messages:
  assumes "Q p" and "\<And>rest. Q (r_messages r @ rest)"
  shows "Q (messages s) \<Longrightarrow> (\<forall>d. swr_pending s = Some d \<longrightarrow> Q d) \<Longrightarrow>
         Q (messages (foldl (callApi_callback h r e p) s evs))"
proof (induction evs arbitrary: s)
  case Nil
  then show ?case by simp
next
  case (Cons ev evs)
  have step: "Q (messages (callApi_callback h r e p s ev)) \<and>
         (\<forall>d. swr_pending (callApi_callback h r e p s ev) = Some d \<longrightarrow> Q d)"
    using callApi_callback_messages [where Q = Q and p = p and r = r and s = s and h = h
        and e = e and ev = ev] assms Cons.prems
    by simp
  show ?case
    using Cons.IH [of "callApi_callback h r e p s ev"] step by simp
qed

lemma getStreamedResponse_messages:
  assumes "Q p" and "\<And>rest. Q (r_messages r @ rest)" and "Q (messages s)"
  shows "Q (messages (getStreamedResponse h r e p a evs s))"
proof -
  let ?s2 = "(mutate h (r_messages r) s)\<lparr>trace := trace (mutate h (r_messages r) s) @
                 [CallApi (api h) (constructedMessagesPayload h r) a]\<rparr>"
  have "Q (r_messages r)"
    using assms(2) [of "[]"] by simp
  then have "Q (messages ?s2)" and "\<forall>d. swr_pending ?s2 = Some d \<longrightarrow> Q d"
    using assms(3) by simp_all
  then have "Q (messages (foldl (callApi_callback h r e p) ?s2 evs))"
    using callbacks_messages [where Q = Q and p = p and r = r and s = ?s2 and h = h
        and e = e and evs = evs] assms(1,2)
    by simp
  then show ?thesis
    by (simp add: getStreamedResponse_def Let_def)
qed

lemma stream_steps_messages:
  assumes "\<And>rest. Q (r_messages r @ rest)"
  shows "list_all is_GetStreamedResponse evs \<Longrightarrow> Q (messages s) \<Longrightarrow>
         fst (foldl (stream_step h) (r, s) evs) = r \<and>
         Q (messages (snd (foldl (stream_step h) (r, s) evs)))"
proof (induction evs arbitrary: s)
  case Nil
  then show ?case by simp
next
  case (Cons ev evs)
  from Cons.prems(1) obtain cbs where ev: "ev = GetStreamedResponse cbs"
    by (cases ev) simp_all
  from Cons.prems(1) have rest: "list_all is_GetStreamedResponse evs"
    by simp
  let ?s' = "getStreamedResponse h r (streamData s) (messages s) (abortController s) cbs s"
  have "Q (messages ?s')"
    using getStreamedResponse_messages [where Q = Q and p = "messages s" and r = r and s = s
        and h = h and e = "streamData s" and a = "abortController s" and evs = cbs]
      assms Cons.prems(2)
    by simp
  then show ?case
    using Cons.IH [of ?s'] rest by (simp add: ev)
qed

lemma settle_messages: "messages (snd (settle h outcome s)) = messages s"
  by (cases outcome)
     (simp_all add: settle_def catch_block_def finally_block_def Let_def
        split: sum.splits option.splits)

lemma triggerRequest_messages:
  assumes "list_all is_GetStreamedResponse (fst collab)"
  shows "messages (snd (triggerRequest h collab r s)) = messages s \<or>
         (\<exists>rest. messages (snd (triggerRequest h collab r s)) = r_messages r @ rest)"
proof -
  define Q where "Q = (\<lambda>ms. ms = messages s \<or> (\<exists>rest. ms = r_messages r @ rest))"
  have cont: "Q (r_messages r @ rest)" for rest
    by (simp add: Q_def)
  have start: "Q (messages (try_entry r s))"
    by (simp add: Q_def)
  have "Q (messages (snd (foldl (stream_step h) (r, try_entry r s) (fst collab))))"
    using stream_steps_messages [where Q = Q and evs = "fst collab" and r = r
        and s = "try_entry r s" and h = h] cont start assms
    by simp
  then show ?thesis
    by (simp add: triggerRequest_def settle_messages processChatStream_def Q_def)
qed

section \<open>The other paths of \<open>triggerRequest\<close>\<close>

text \<open>When the collaborator resolves, line 215 clears the controller reference.\<close>

lemma triggerRequest_resolved:
  assumes "snd collab = Resolve"
  shows "fst (triggerRequest h collab chatRequest s) = Inr RNull \<and>
         abortController (snd (triggerRequest h collab chatRequest s)) = None \<and>
         error (snd (triggerRequest h collab chatRequest s)) = None"
  using assms by (simp add: triggerRequest_def settle_def finally_block_def)

text \<open>
  A rejection with \<open>null\<close> or \<open>undefined\<close>: reading \<open>name\<close> throws inside the \<open>catch\<close>
  block, so the promise of \<open>triggerRequest\<close> rejects with a \<open>TypeError\<close>, the error store
  stays unset and \<open>onError\<close> is not called; \<open>finally\<close> still runs.
\<close>

lemma triggerRequest_nullish_rejection:
  assumes "snd collab = Reject JsNull \<or> snd collab = Reject JsUndefined"
  shows "(\<exists>msg. fst (triggerRequest h collab chatRequest s) = Inl (JsError ''TypeError'' msg)) \<and>
         error (snd (triggerRequest h collab chatRequest s)) = None \<and>
         filter is_OnError (trace (snd (triggerRequest h collab chatRequest s))) =
           filter is_OnError (trace s) \<and>
         loading (snd (triggerRequest h collab chatRequest s)) = False"
  using assms
  by (auto simp add: triggerRequest_def settle_def catch_block_def finally_block_def
        processChatStream_trace)

section \<open>The claims\<close>

subsection \<open>reload\<close>

text \<open>
  C1. On a non-empty message list, \<open>reload\<close> triggers exactly one request, the one
  \<open>triggerRequest\<close> is called with. Its messages are the current snapshot without its last
  message when the role of that message is \<open>assistant\<close>, and the whole snapshot unchanged
  otherwise.
\<close>

theorem reload_request_messages:
  assumes "messages s \<noteq> []"
  shows "reload h collab opts s =
           triggerRequest h collab
             \<lparr>r_messages = (if m_role (last (messages s)) = Assistant
                             then butlast (messages s) else messages s),
              r_options = o_options opts, r_functions = o_functions opts,
              r_function_call = o_function_call opts\<rparr> s \<and>
         filter is_ProcessChatStream (trace (snd (reload h collab opts s))) =
           filter is_ProcessChatStream (trace s) @
             [ProcessChatStream
               \<lparr>r_messages = (if m_role (last (messages s)) = Assistant
                               then butlast (messages s) else messages s),
                r_options = o_options opts, r_functions = o_functions opts,
                r_function_call = o_function_call opts\<rparr>]"
  using assms by (simp add: reload_def triggerRequest_requests)

theorem reload_request_messages_witness:
  "filter is_ProcessChatStream
     (trace (snd (reload example_hook ([], Resolve) no_options example_state))) =
     [ProcessChatStream
       \<lparr>r_messages = [user_message], r_options = None, r_functions = None,
        r_function_call = None\<rparr>] \<and>
   filter is_ProcessChatStream
     (trace (snd (reload example_hook ([], Resolve) no_options user_only_state))) =
     [ProcessChatStream
       \<lparr>r_messages = [user_message], r_options = None, r_functions = None,
        r_function_call = None\<rparr>]"
  using reload_request_messages [of example_state example_hook "([], Resolve)" no_options]
    reload_request_messages [of user_only_state example_hook "([], Resolve)" no_options]
  by (auto simp add: example_state_def user_only_state_def useChat_def no_options_def
      assistant_message_def user_message_def)

text \<open>
  C5. On an empty message list \<open>reload\<close> returns \<open>null\<close> and leaves the whole state as it
  is: no request is sent, and messages, error, loading and the cache are unchanged.
\<close>

theorem reload_empty_noop:
  assumes "messages s = []"
  shows "reload h collab opts s = (Inr RNull, s)"
  using assms by (simp add: reload_def)

theorem reload_empty_noop_witness:
  "messages empty_state = [] \<and>
   reload example_hook ([GetStreamedResponse []], Resolve) no_options empty_state =
     (Inr RNull, empty_state)"
  using reload_empty_noop [of empty_state example_hook "([GetStreamedResponse []], Resolve)"
      no_options]
  by (auto simp add: empty_state_def useChat_def)

subsection \<open>triggerRequest\<close>

text \<open>
  C2, as stated: on every rejection that is not abort-class the error store is set to the
  rejected value and a provided \<open>onError\<close> is called exactly once with it. The source
  calls \<open>onError\<close> only under \<open>err instanceof Error\<close>: with the callback provided and a
  thrown string, which has no name \<open>AbortError\<close>, no call of \<open>onError\<close> is made.
\<close>

theorem triggerRequest_onError_counterexample:
  "name_of (JsString ''quota exceeded'') = Inr None \<and>
   onError example_hook \<noteq> None \<and>
   filter is_OnError (trace example_state) = [] \<and>
   filter is_OnError
     (trace (snd (triggerRequest example_hook ([], Reject (JsString ''quota exceeded''))
        example_request example_state))) = []"
  by (simp add: triggerRequest_def settle_def catch_block_def finally_block_def
      processChatStream_def try_entry_def example_hook_def example_state_def useChat_def)

text \<open>
  C2, amended. For every rejection whose property \<open>name\<close> can be read and is not
  \<open>AbortError\<close>: when the rejected value is an instance of \<open>Error\<close> and an \<open>onError\<close>
  callback was provided, the callback is called exactly once, with that value, and the
  error store is set to that value when the callback returns; when the value is not an
  instance of \<open>Error\<close> or no callback was provided, no call of \<open>onError\<close> is made and the
  error store is set to that value.
\<close>

theorem triggerRequest_error_published:
  assumes "snd collab = Reject err" and "name_of err = Inr nm"
    and "nm \<noteq> Some (JStr ''AbortError'')"
  shows "(instanceofError err \<longrightarrow> onError h = Some callback \<longrightarrow>
            filter is_OnError (trace (snd (triggerRequest h collab chatRequest s))) =
              filter is_OnError (trace s) @ [OnError err]) \<and>
         (instanceofError err \<longrightarrow> onError h = Some callback \<longrightarrow> callback err = None \<longrightarrow>
            error (snd (triggerRequest h collab chatRequest s)) = Some err) \<and>
         (\<not> instanceofError err \<or> onError h = None \<longrightarrow>
            filter is_OnError (trace (snd (triggerRequest h collab chatRequest s))) =
              filter is_OnError (trace s) \<and>
            error (snd (triggerRequest h collab chatRequest s)) = Some err)"
  using assms
  by (auto simp add: triggerRequest_def settle_def catch_block_def finally_block_def Let_def
        processChatStream_trace split: option.splits)

theorem triggerRequest_error_published_witness:
  "filter is_OnError
     (trace (snd (triggerRequest example_hook
        ([GetStreamedResponse [RestoreMessagesOnFailure]], Reject (JsError ''Error'' ''500''))
        example_request example_state))) = [OnError (JsError ''Error'' ''500'')] \<and>
   error (snd (triggerRequest example_hook
        ([GetStreamedResponse [RestoreMessagesOnFailure]], Reject (JsError ''Error'' ''500''))
        example_request example_state)) = Some (JsError ''Error'' ''500'') \<and>
   error (snd (triggerRequest example_hook
        ([GetStreamedResponse [RestoreMessagesOnFailure]], Reject (JsString ''quota exceeded''))
        example_request example_state)) = Some (JsString ''quota exceeded'')"
  using triggerRequest_error_published
      [where collab = "([GetStreamedResponse [RestoreMessagesOnFailure]],
                        Reject (JsError ''Error'' ''500''))"
         and err = "JsError ''Error'' ''500''" and nm = "Some (JStr ''Error'')"
         and h = example_hook and callback = "\<lambda>err. None"
         and chatRequest = example_request and s = example_state]
    triggerRequest_error_published
      [where collab = "([GetStreamedResponse [RestoreMessagesOnFailure]],
                        Reject (JsString ''quota exceeded''))"
         and err = "JsString ''quota exceeded''" and nm = None
         and h = example_hook and callback = "\<lambda>err. None"
         and chatRequest = example_request and s = example_state]
  by (auto simp add: example_hook_def example_state_def useChat_def)

text \<open>
  C3. Whatever the request and however the collaborator settles (it resolves, it rejects
  with an abort-class error, it rejects with anything else), \<open>triggerRequest\<close> ends with
  the loading store set to \<open>false\<close>.
\<close>

theorem triggerRequest_clears_loading:
  "loading (snd (triggerRequest h collab chatRequest s)) = False"
  by (cases "snd collab")
     (simp_all add: triggerRequest_def settle_def catch_block_def finally_block_def Let_def
        split: sum.splits option.splits)

text \<open>
  C4. When the collaborator rejects with a value whose name is \<open>AbortError\<close>,
  \<open>triggerRequest\<close> resolves with \<open>null\<close>: the error store is unset, the controller
  reference is \<open>null\<close>, no call of \<open>onError\<close> is made, and loading is \<open>false\<close>.
\<close>

theorem triggerRequest_abort_silent:
  assumes "snd collab = Reject err" and "name_of err = Inr (Some (JStr ''AbortError''))"
  shows "fst (triggerRequest h collab chatRequest s) = Inr RNull \<and>
         error (snd (triggerRequest h collab chatRequest s)) = None \<and>
         abortController (snd (triggerRequest h collab chatRequest s)) = None \<and>
         filter is_OnError (trace (snd (triggerRequest h collab chatRequest s))) =
           filter is_OnError (trace s) \<and>
         loading (snd (triggerRequest h collab chatRequest s)) = False"
  using assms
  by (simp add: triggerRequest_def settle_def catch_block_def finally_block_def
        processChatStream_trace)

theorem triggerRequest_abort_silent_witness:
  "fst (triggerRequest example_hook
        ([GetStreamedResponse []], Reject (JsError ''AbortError'' ''The user aborted a request.''))
        example_request example_state) = Inr RNull \<and>
   error (snd (triggerRequest example_hook
        ([GetStreamedResponse []], Reject (JsError ''AbortError'' ''The user aborted a request.''))
        example_request example_state)) = None \<and>
   abortController (snd (triggerRequest example_hook
        ([GetStreamedResponse []], Reject (JsError ''AbortError'' ''The user aborted a request.''))
        example_request example_state)) = None \<and>
   filter is_OnError (trace (snd (triggerRequest example_hook
        ([GetStreamedResponse []], Reject (JsError ''AbortError'' ''The user aborted a request.''))
        example_request example_state))) = []"
  using triggerRequest_abort_silent
      [where collab = "([GetStreamedResponse []],
                        Reject (JsError ''AbortError'' ''The user aborted a request.''))"
         and err = "JsError ''AbortError'' ''The user aborted a request.''"
         and h = example_hook and chatRequest = example_request and s = example_state]
  by (auto simp add: example_state_def useChat_def)

text \<open>
  C10. When the collaborator rejects with anything that is not abort-class, the
  controller reference is not cleared: after \<open>triggerRequest\<close> it is still the one
  controller created for that request, and a following \<open>stop\<close> calls \<open>abort\<close> on it and
  then clears the reference.
\<close>

theorem triggerRequest_failure_keeps_controller:
  assumes "snd collab = Reject err" and "name_of err \<noteq> Inr (Some (JStr ''AbortError''))"
  shows "abortController (snd (triggerRequest h collab chatRequest s)) = Some (controllers s) \<and>
         controllers (snd (triggerRequest h collab chatRequest s)) = Suc (controllers s) \<and>
         stop (snd (triggerRequest h collab chatRequest s)) =
           (Inr RUndefined,
            (snd (triggerRequest h collab chatRequest s))
              \<lparr>trace := trace (snd (triggerRequest h collab chatRequest s)) @
                          [Abort (controllers s)],
               abortController := None\<rparr>)"
  using assms
  by (simp add: triggerRequest_def settle_def catch_block_def finally_block_def stop_def Let_def
        split: sum.splits option.splits)

theorem triggerRequest_failure_keeps_controller_witness:
  "abortController (snd (triggerRequest example_hook ([], Reject (JsError ''Error'' ''500''))
      example_request example_state)) = Some 0 \<and>
   filter is_Abort (trace (snd (stop (snd (triggerRequest example_hook
      ([], Reject (JsError ''Error'' ''500'')) example_request example_state))))) = [Abort 0]"
  using triggerRequest_failure_keeps_controller
      [where collab = "([], Reject (JsError ''Error'' ''500''))"
         and err = "JsError ''Error'' ''500''"
         and h = example_hook and chatRequest = example_request and s = example_state]
  by (auto simp add: triggerRequest_def settle_def catch_block_def finally_block_def
      processChatStream_def try_entry_def example_hook_def example_state_def useChat_def)

subsection \<open>append\<close>

text \<open>
  C6. A message passed to \<open>append\<close> without an id is given the generated id before the
  request is built, and the request \<open>triggerRequest\<close> receives ends with the message under
  that id. The id then stays: as long as the collaborator does not replace the request,
  the message list left in the store by the request is either the one from before the
  request (the message was taken back) or continues the old list with the message under
  that id; and passing the message to \<open>append\<close> again keeps the id, whatever the
  generator would return.
\<close>

theorem append_assigns_stable_id:
  assumes "m_id message = None" and "generated \<noteq> []"
  shows "append_message h collab generated message opts s =
           triggerRequest h collab
             \<lparr>r_messages = messages s @ [message\<lparr>m_id := Some generated\<rparr>],
              r_options = o_options opts, r_functions = o_functions opts,
              r_function_call = o_function_call opts\<rparr> s \<and>
         filter is_ProcessChatStream
             (trace (snd (append_message h collab generated message opts s))) =
           filter is_ProcessChatStream (trace s) @
             [ProcessChatStream
               \<lparr>r_messages = messages s @ [message\<lparr>m_id := Some generated\<rparr>],
                r_options = o_options opts, r_functions = o_functions opts,
                r_function_call = o_function_call opts\<rparr>] \<and>
         (list_all is_GetStreamedResponse (fst collab) \<longrightarrow>
            messages (snd (append_message h collab generated message opts s)) = messages s \<or>
            (\<exists>rest. messages (snd (append_message h collab generated message opts s)) =
               messages s @ message\<lparr>m_id := Some generated\<rparr> # rest)) \<and>
         r_messages (append_request generated' (message\<lparr>m_id := Some generated\<rparr>) opts' s') =
           messages s' @ [message\<lparr>m_id := Some generated\<rparr>]"
proof -
  let ?r = "\<lparr>r_messages = messages s @ [message\<lparr>m_id := Some generated\<rparr>],
              r_options = o_options opts, r_functions = o_functions opts,
              r_function_call = o_function_call opts\<rparr>"
  have req: "append_request generated message opts s = ?r"
    using assms(1) by (simp add: append_request_def assignId_def noId_def)
  have a: "append_message h collab generated message opts s = triggerRequest h collab ?r s"
    by (simp add: append_message_def req)
  have b: "filter is_ProcessChatStream
             (trace (snd (append_message h collab generated message opts s))) =
           filter is_ProcessChatStream (trace s) @ [ProcessChatStream ?r]"
    by (simp only: a triggerRequest_requests)
  have c: "messages (snd (append_message h collab generated message opts s)) = messages s \<or>
            (\<exists>rest. messages (snd (append_message h collab generated message opts s)) =
               messages s @ message\<lparr>m_id := Some generated\<rparr> # rest)"
    if "list_all is_GetStreamedResponse (fst collab)"
    using triggerRequest_messages [OF that, of h ?r s] by (simp add: a)
  have d: "r_messages (append_request generated' (message\<lparr>m_id := Some generated\<rparr>) opts' s') =
           messages s' @ [message\<lparr>m_id := Some generated\<rparr>]"
    using assms(2) by (simp add: append_request_def assignId_def noId_def)
  from a b c d show ?thesis
    by blast
qed

theorem append_assigns_stable_id_witness:
  "filter is_ProcessChatStream
     (trace (snd (append_message example_hook
        ([GetStreamedResponse [OnUpdate [assistant_message] None]], Resolve)
        ''id-1'' new_message no_options example_state))) =
     [ProcessChatStream
       \<lparr>r_messages = [user_message, assistant_message, new_message\<lparr>m_id := Some ''id-1''\<rparr>],
        r_options = None, r_functions = None, r_function_call = None\<rparr>] \<and>
   (messages (snd (append_message example_hook
        ([GetStreamedResponse [OnUpdate [assistant_message] None]], Resolve)
        ''id-1'' new_message no_options example_state)) = [user_message, assistant_message] \<or>
    (\<exists>rest. messages (snd (append_message example_hook
        ([GetStreamedResponse [OnUpdate [assistant_message] None]], Resolve)
        ''id-1'' new_message no_options example_state)) =
      [user_message, assistant_message, new_message\<lparr>m_id := Some ''id-1''\<rparr>] @ rest)) \<and>
   r_messages (append_request ''id-2'' (new_message\<lparr>m_id := Some ''id-1''\<rparr>) no_options
      example_state) =
     [user_message, assistant_message, new_message\<lparr>m_id := Some ''id-1''\<rparr>]"
  using append_assigns_stable_id
      [where message = new_message and generated = "''id-1''" and h = example_hook
         and collab = "([GetStreamedResponse [OnUpdate [assistant_message] None]], Resolve)"
         and opts = no_options and s = example_state and generated' = "''id-2''"
         and opts' = no_options and s' = example_state]
  by (auto simp add: example_state_def useChat_def no_options_def new_message_def)

subsection \<open>handleSubmit\<close>

text \<open>
  C7. With an empty input text \<open>handleSubmit\<close> only suppresses the default action of the
  event: nothing is appended, no request is made and the input store keeps its value.
  With a non-empty input text it makes exactly one request, which ends with one new
  message that has that text as content, the role \<open>user\<close> and a timestamp, and the input
  store is then the empty string.
\<close>

theorem handleSubmit_appends_and_clears:
  "(input s = [] \<longrightarrow>
      handleSubmit h collab generated now opts s =
        (Inr RUndefined, s\<lparr>trace := trace s @ [PreventDefault]\<rparr>)) \<and>
   (input s \<noteq> [] \<longrightarrow>
      filter is_ProcessChatStream
          (trace (snd (handleSubmit h collab generated now opts s))) =
        filter is_ProcessChatStream (trace s) @
          [ProcessChatStream
            \<lparr>r_messages = messages s @
               [\<lparr>m_id = Some generated, m_role = User, m_content = input s, m_name = None,
                 m_function_call = None, m_createdAt = Some now\<rparr>],
             r_options = o_options opts, r_functions = o_functions opts,
             r_function_call = o_function_call opts\<rparr>] \<and>
      input (snd (handleSubmit h collab generated now opts s)) = [])"
  by (simp add: handleSubmit_def Let_def append_message_def triggerRequest_requests
        append_request_def assignId_def noId_def)

theorem handleSubmit_appends_and_clears_witness:
  "handleSubmit example_hook ([], Resolve) ''id-1'' 1700000000000 no_options empty_state =
     (Inr RUndefined, empty_state\<lparr>trace := [PreventDefault]\<rparr>) \<and>
   filter is_ProcessChatStream
     (trace (snd (handleSubmit example_hook ([], Resolve) ''id-1'' 1700000000000 no_options
        example_state))) =
     [ProcessChatStream
       \<lparr>r_messages = [user_message, assistant_message,
          \<lparr>m_id = Some ''id-1'', m_role = User, m_content = ''and then?'', m_name = None,
           m_function_call = None, m_createdAt = Some 1700000000000\<rparr>],
        r_options = None, r_functions = None, r_function_call = None\<rparr>] \<and>
   input (snd (handleSubmit example_hook ([], Resolve) ''id-1'' 1700000000000 no_options
      example_state)) = []"
  using handleSubmit_appends_and_clears
      [of empty_state example_hook "([], Resolve)" "''id-1''" 1700000000000 no_options]
    handleSubmit_appends_and_clears
      [of example_state example_hook "([], Resolve)" "''id-1''" 1700000000000 no_options]
  by (auto simp add: example_state_def empty_state_def useChat_def no_options_def)

subsection \<open>setMessages\<close>

text \<open>
  What \<open>setMessages(m)\<close> does before it returns: the cache entry of the hook's key is
  \<open>m\<close>, the other entries are as they were, and \<open>m\<close> is handed to sswr; the store
  \<open>messages\<close> still holds the list from before. No call to the outside is made, so no
  request, and error, loading, stream data, input and the controller reference are
  unchanged. The store holds \<open>m\<close> once sswr has delivered it.
\<close>

lemma setMessages_effects:
  "fst (setMessages h m s) = Inr RUndefined \<and>
   store (snd (setMessages h m s)) = (store s)(key h \<mapsto> m) \<and>
   swr_pending (snd (setMessages h m s)) = Some m \<and>
   messages (snd (setMessages h m s)) = messages s \<and>
   messages (deliver (snd (setMessages h m s))) = m \<and>
   trace (snd (setMessages h m s)) = trace s \<and>
   error (snd (setMessages h m s)) = error s \<and>
   loading (snd (setMessages h m s)) = loading s \<and>
   streamData (snd (setMessages h m s)) = streamData s \<and>
   input (snd (setMessages h m s)) = input s \<and>
   abortController (snd (setMessages h m s)) = abortController s \<and>
   controllers (snd (setMessages h m s)) = controllers s"
  by (simp add: setMessages_def deliver_def)

text \<open>
  C8. \<open>setMessages(m)\<close> is to set the messages store and the cache entry of the hook's
  key to \<open>m\<close> without a request. The cache entry is set and no request is made, but the
  messages store is not: with the messages \<open>[user_message, assistant_message]\<close> in the
  store, after \<open>setMessages([edited_message])\<close> has returned the store still reads the
  two old messages, and a \<open>reload\<close> called right then, the use the documentation of
  \<open>setMessages\<close> (lines 43-47) gives, sends the old \<open>user_message\<close> and not the edited
  one.
\<close>

theorem setMessages_then_reload_stale:
  "store (snd (setMessages example_hook [edited_message] example_state)) (key example_hook) =
     Some [edited_message] \<and>
   messages (snd (setMessages example_hook [edited_message] example_state)) =
     [user_message, assistant_message] \<and>
   [user_message, assistant_message] \<noteq> [edited_message] \<and>
   filter is_ProcessChatStream
     (trace (snd (reload example_hook ([], Resolve) no_options
        (snd (setMessages example_hook [edited_message] example_state))))) =
     [ProcessChatStream
       \<lparr>r_messages = [user_message], r_options = None, r_functions = None,
        r_function_call = None\<rparr>]"
  by (simp add: setMessages_def reload_def triggerRequest_requests example_state_def
      useChat_def no_options_def assistant_message_def)

subsection \<open>stop\<close>

text \<open>
  C9. \<open>stop\<close> never throws. When no controller is held it leaves the whole state as it
  is; and since \<open>stop\<close> leaves no controller behind, a second \<open>stop\<close> right after a first
  changes nothing.
\<close>

theorem stop_without_controller:
  "(abortController s = None \<longrightarrow> stop s = (Inr RUndefined, s)) \<and>
   fst (stop s) = Inr RUndefined \<and>
   stop (snd (stop s)) = (Inr RUndefined, snd (stop s))"
  by (simp add: stop_def split: option.splits)

theorem stop_without_controller_witness:
  "abortController example_state = None \<and>
   stop example_state = (Inr RUndefined, example_state)"
  using stop_without_controller [of example_state]
  by (auto simp add: example_state_def useChat_def)

end
